theory Spec2Isabelle
  imports Main "HOL-Library.AList"
begin

section \<open>The crypto news pipeline of ci.py\<close>

text \<open>
  The pipeline of \<^verbatim>\<open>CryptoNewsProcessor\<close> fetches news for a token from two
  providers, asks the OpenAI service for a summary, a sentiment and an image for each
  item, and appends one entry per item to the day's \<^verbatim>\<open>predictions.yaml\<close>.

  Everything the program gets from outside (the HTTP responses, the answers of the OpenAI
  service, the state of the disk, the clock) is an input of the model: a record of
  outcomes, each either a value or the exception the call raises. The functions of
  \<^verbatim>\<open>ci.py\<close> are then pure functions of these outcomes. An exception is a value
  of \<open>py_error\<close>; a function that can raise returns \<open>py_error + 'a\<close>, with
  \<open>Inl\<close> for the exception. Only subclasses of \<^verbatim>\<open>Exception\<close> are modelled
  (what \<^verbatim>\<open>except Exception\<close> catches).

  Strings are lists of characters. A decoded JSON object of a provider is a dictionary from
  keys to strings (the items' fields are strings, as the annotations \<^verbatim>\<open>title: str\<close>,
  \<^verbatim>\<open>description: str\<close> have them); a key may be absent. Dictionaries are
  association lists in insertion order, looked up with \<open>map_of\<close>.

  \<^verbatim>\<open>str.strip\<close> is the interpreter's: which characters it removes is decided by
  the Unicode tables of the Python that runs the program, not by the repository. The
  functions that call it take it as a parameter, \<open>strip\<close>, and every property holds
  for any function in its place.
\<close>

subsection \<open>Exceptions and dictionaries\<close>

datatype py_error =
    KeyError string
  | IndexError
  | AttributeError
  | RequestException
  | JSONDecodeError
  | YAMLError
  | OSError
  | OpenAIError

text \<open>Sequencing of statements that may raise: the first exception ends the block.\<close>

definition and_then :: "py_error + 'a \<Rightarrow> ('a \<Rightarrow> py_error + 'b) \<Rightarrow> py_error + 'b" where
  "and_then r f = (case r of Inl e \<Rightarrow> Inl e | Inr v \<Rightarrow> f v)"

text \<open>A call made for its effect only: it returns nothing or raises.\<close>

definition effect :: "py_error option \<Rightarrow> py_error + unit" where
  "effect r = (case r of Some e \<Rightarrow> Inl e | None \<Rightarrow> Inr ())"

text \<open>\<^verbatim>\<open>d[k]\<close> and \<^verbatim>\<open>d.get(k, default)\<close> on a dictionary.\<close>

definition getitem :: "(string \<times> 'v) list \<Rightarrow> string \<Rightarrow> py_error + 'v" where
  "getitem d k = (case map_of d k of None \<Rightarrow> Inl (KeyError k) | Some v \<Rightarrow> Inr v)"

definition dict_get :: "(string \<times> 'v) list \<Rightarrow> string \<Rightarrow> 'v \<Rightarrow> 'v" where
  "dict_get d k dflt = (case map_of d k of None \<Rightarrow> dflt | Some v \<Rightarrow> v)"

subsection \<open>Strings and paths\<close>

text \<open>
  \<^verbatim>\<open>str(n)\<close> for an integer, and \<^verbatim>\<open>os.path.join(a, b)\<close> on POSIX.
\<close>

fun str_nat :: "nat \<Rightarrow> string" where
  "str_nat n =
     (if n < 10 then [''0123456789'' ! n]
      else str_nat (n div 10) @ [''0123456789'' ! (n mod 10)])"

declare str_nat.simps [simp del]

definition str_int :: "int \<Rightarrow> string" where
  "str_int i = (if i < 0 then ''-'' @ str_nat (nat (- i)) else str_nat (nat i))"

definition path_join :: "string \<Rightarrow> string \<Rightarrow> string" where
  "path_join a b =
     (if b \<noteq> [] \<and> hd b = CHR ''/'' then b
      else if a = [] \<or> last a = CHR ''/'' then a @ b
      else a @ ''/'' @ b)"

subsection \<open>The outside world\<close>

type_synonym news_item = "(string \<times> string) list"

text \<open>The decoded body of a provider: a JSON object whose values are arrays of items.\<close>

type_synonym json_body = "(string \<times> news_item list) list"

text \<open>
  A response of \<^verbatim>\<open>requests.get\<close>: its status code, and what
  \<^verbatim>\<open>response.json()\<close> gives (it raises on a body that is not JSON).
\<close>

record response =
  status_code :: int
  json :: "py_error + json_body"

text \<open>
  What the OpenAI service, the network and the disk do during the processing of one
  item:
  \<^item> \<open>openai_init\<close>: \<^verbatim>\<open>OpenAI(api_key=...)\<close>;
  \<^item> \<open>chat_create prompt\<close>: \<^verbatim>\<open>client.chat.completions.create\<close> with model
    gpt-4o and the prompt; its value is the list of \<^verbatim>\<open>message.content\<close> of the
    response's choices (a content may be \<^verbatim>\<open>None\<close>);
  \<^item> \<open>models_list\<close>: \<^verbatim>\<open>client.models.list()\<close>;
  \<^item> \<open>images_generate model prompt\<close>: \<^verbatim>\<open>client.images.generate\<close>; its value
    is the list of the urls of \<^verbatim>\<open>response.data\<close>;
  \<^item> \<open>image_get url\<close>: \<^verbatim>\<open>requests.get(url, stream=True)\<close>, its status code;
  \<^item> \<open>save_image path\<close>: creating the directory of \<open>path\<close>, opening the file and
    copying the stream into it.
\<close>

record service =
  openai_init :: "py_error option"
  chat_create :: "string \<Rightarrow> py_error + string option list"
  models_list :: "py_error option"
  images_generate :: "string \<Rightarrow> string \<Rightarrow> py_error + string list"
  image_get :: "string \<Rightarrow> py_error + int"
  save_image :: "string \<Rightarrow> py_error option"

subsection \<open>The fetchers\<close>

definition coingecko_base_url :: string where
  "coingecko_base_url = ''https://api.coingecko.com/api/v3''"

definition cryptopanic_base_url :: string where
  "cryptopanic_base_url = ''https://cryptopanic.com/api/free/v1/posts/''"

definition cryptopanic_api_key :: string where
  "cryptopanic_api_key = ''''"

type_synonym http = "string \<Rightarrow> (string \<times> string) list \<Rightarrow> py_error + response"

definition get_coingecko_news :: "http \<Rightarrow> string \<Rightarrow> py_error + news_item list" where
  "get_coingecko_news requests_get token =
     (let url = coingecko_base_url @ ''/news'';
          params = [(''filter'', token)]
      in and_then (requests_get url params) (\<lambda>response.
           if status_code response = 200
           then and_then (json response) (\<lambda>body. Inr (take 10 (dict_get body ''data'' [])))
           else Inr []))"

text \<open>
  The comprehension \<^verbatim>\<open>[news for news in ... if news["kind"] == "news"]\<close>: the
  test reads the key of every entry in turn, and raises at the first entry without it.
\<close>

fun kind_is_news :: "news_item list \<Rightarrow> py_error + news_item list" where
  "kind_is_news [] = Inr []"
| "kind_is_news (news # rest) =
     and_then (getitem news ''kind'') (\<lambda>kind.
     and_then (kind_is_news rest) (\<lambda>kept.
       Inr (if kind = ''news'' then news # kept else kept)))"

definition get_cryptopanic_news :: "http \<Rightarrow> string \<Rightarrow> py_error + news_item list" where
  "get_cryptopanic_news requests_get token =
     (let params = [(''auth_token'', cryptopanic_api_key),
                    (''currencies'', token),
                    (''kind'', ''news'')]
      in and_then (requests_get cryptopanic_base_url params) (\<lambda>response.
           if status_code response = 200
           then and_then (json response) (\<lambda>body. kind_is_news (dict_get body ''results'' []))
           else Inr []))"

subsection \<open>The enricher\<close>

text \<open>
  The receiver of \<^verbatim>\<open>response.choices[0].message.content.strip()\<close>: an IndexError
  when there is no choice, an AttributeError when the content is \<^verbatim>\<open>None\<close> (it
  has no \<^verbatim>\<open>strip\<close>), and the content otherwise.
\<close>

definition first_content :: "string option list \<Rightarrow> py_error + string" where
  "first_content choices =
     (case choices of
        [] \<Rightarrow> Inl IndexError
      | None # _ \<Rightarrow> Inl AttributeError
      | Some content # _ \<Rightarrow> Inr content)"

definition summary_prompt :: "string \<Rightarrow> string" where
  "summary_prompt title = ''Summarize this title in exactly 5 words: '' @ title"

definition sentiment_prompt :: "string \<Rightarrow> string \<Rightarrow> string" where
  "sentiment_prompt title description =
     ''Analyze the sentiment of this news article. Title: '' @ title @ [CHR 0x0A] @
     ''            Description: '' @ description @ [CHR 0x0A] @
     ''            Respond with exactly one of these: Very Bullish, Bullish, Neutral, Bearish, Very Bearish''"

definition sentiment_mapping :: "(string \<times> string) list" where
  "sentiment_mapping =
     [(''Very Bullish'', ''VeryBullish''),
      (''Very Bearish'', ''VeryBearish'')]"

text \<open>
  The body of the \<^verbatim>\<open>try\<close> of \<^verbatim>\<open>get_sentiment_and_summary\<close>; \<open>strip\<close>
  is \<^verbatim>\<open>str.strip\<close>.
\<close>

definition sentiment_and_summary_try ::
  "(string \<Rightarrow> string) \<Rightarrow> service \<Rightarrow> string \<Rightarrow> string \<Rightarrow> py_error + string \<times> string" where
  "sentiment_and_summary_try strip svc title description =
     and_then (effect (openai_init svc)) (\<lambda>client.
     and_then (chat_create svc (summary_prompt title)) (\<lambda>summary_response.
     and_then (first_content summary_response) (\<lambda>summary_content.
     let five_word_summary = strip summary_content
     in and_then (chat_create svc (sentiment_prompt title description)) (\<lambda>sentiment_response.
        and_then (first_content sentiment_response) (\<lambda>sentiment_content.
          let sentiment = strip sentiment_content;
              formatted_sentiment = dict_get sentiment_mapping sentiment sentiment
          in Inr (five_word_summary, formatted_sentiment))))))"

definition get_sentiment_and_summary ::
  "(string \<Rightarrow> string) \<Rightarrow> service \<Rightarrow> string \<Rightarrow> string \<Rightarrow> string \<times> string" where
  "get_sentiment_and_summary strip svc title description =
     (case sentiment_and_summary_try strip svc title description of
        Inr result \<Rightarrow> result
      | Inl e \<Rightarrow> (''Error generating summary'', ''Neutral''))"

subsection \<open>The illustrator\<close>

text \<open>
  The functions of the illustrator also return the models of the image requests they
  sent, in order: the claims about the fallback speak of the requests.
\<close>

definition image_prompt :: "string \<Rightarrow> string" where
  "image_prompt prompt =
     ''Create a professional financial chart or visualization related to: '' @ prompt @
     ''. Style: Modern, clean, financial.''"

text \<open>The inner \<^verbatim>\<open>try\<close>: DALL-E 3, and DALL-E 2 in its handler.\<close>

definition generate_image :: "service \<Rightarrow> string \<Rightarrow> (py_error + string list) \<times> string list" where
  "generate_image svc prompt =
     (case images_generate svc ''dall-e-3'' (image_prompt prompt) of
        Inr response \<Rightarrow> (Inr response, [''dall-e-3''])
      | Inl e \<Rightarrow>
          (images_generate svc ''dall-e-2'' (image_prompt prompt), [''dall-e-3'', ''dall-e-2'']))"

text \<open>
  \<^verbatim>\<open>response.data[0].url\<close>, the download and the copy to \<open>save_path\<close>; a
  status other than 200 returns the empty string.
\<close>

definition download_and_save :: "service \<Rightarrow> string list \<Rightarrow> string \<Rightarrow> py_error + string" where
  "download_and_save svc response save_path =
     and_then (case response of [] \<Rightarrow> Inl IndexError | url # _ \<Rightarrow> Inr url) (\<lambda>image_url.
     and_then (image_get svc image_url) (\<lambda>img_status.
       if img_status = 200
       then and_then (effect (save_image svc save_path)) (\<lambda>_. Inr save_path)
       else Inr ''''))"

text \<open>The body of the outer \<^verbatim>\<open>try\<close> of \<^verbatim>\<open>generate_and_save_image\<close>.\<close>

definition generate_and_save_image_try :: "service \<Rightarrow> string \<Rightarrow> string \<Rightarrow> (py_error + string) \<times> string list" where
  "generate_and_save_image_try svc prompt save_path =
     (case effect (openai_init svc) of
        Inl e \<Rightarrow> (Inl e, [])
      | Inr client \<Rightarrow>
          (case effect (models_list svc) of
             Inl e \<Rightarrow> (Inl e, [])
           | Inr models \<Rightarrow>
               (let (response, requested) = generate_image svc prompt
                in (and_then response (\<lambda>r. download_and_save svc r save_path), requested))))"

definition generate_and_save_image_log :: "service \<Rightarrow> string \<Rightarrow> string \<Rightarrow> string \<times> string list" where
  "generate_and_save_image_log svc prompt save_path =
     (let (result, requested) = generate_and_save_image_try svc prompt save_path
      in (case result of Inr path \<Rightarrow> path | Inl e \<Rightarrow> '''', requested))"

definition generate_and_save_image :: "service \<Rightarrow> string \<Rightarrow> string \<Rightarrow> string" where
  "generate_and_save_image svc prompt save_path =
     fst (generate_and_save_image_log svc prompt save_path)"

subsection \<open>The record store\<close>

record news_entry =
  id' :: int
  title :: string
  preview :: string
  fullContent :: string
  image' :: string
  sourcelink :: string
  sentiment :: string

text \<open>The dictionary \<^verbatim>\<open>data\<close>: its key \<^verbatim>\<open>predictions\<close> holds the entries.\<close>

type_synonym data = "(string \<times> news_entry list) list"

text \<open>The entries of a dictionary \<^verbatim>\<open>data\<close>.\<close>

definition predictions :: "data \<Rightarrow> news_entry list" where
  "predictions data = dict_get data ''predictions'' []"

text \<open>
  The file \<^verbatim>\<open>predictions.yaml\<close> as \<^verbatim>\<open>process_news\<close> finds it: absent;
  present but \<^verbatim>\<open>open\<close> or \<^verbatim>\<open>yaml.safe_load\<close> raises; or loaded, as
  \<^verbatim>\<open>None\<close> (an empty file) or as a dictionary.
\<close>

datatype yaml_file = Missing | Unreadable py_error | Stored "data option"

text \<open>\<^verbatim>\<open>max(xs, default=d)\<close>.\<close>

definition max_default :: "int list \<Rightarrow> int \<Rightarrow> int" where
  "max_default xs d = (case xs of [] \<Rightarrow> d | x # rest \<Rightarrow> fold max rest x)"

text \<open>Lines 169 to 176 of \<^verbatim>\<open>process_news\<close>: initialize or load the existing YAML.\<close>

definition load_existing :: "yaml_file \<Rightarrow> py_error + data \<times> int" where
  "load_existing file =
     (case file of
        Missing \<Rightarrow> Inr ([(''predictions'', [])], 0)
      | Unreadable e \<Rightarrow> Inl e
      | Stored loaded \<Rightarrow>
          (let data = (case loaded of
                         None \<Rightarrow> [(''predictions'', [])]
                       | Some d \<Rightarrow> if d = [] then [(''predictions'', [])] else d)
           in and_then (getitem data ''predictions'') (\<lambda>predictions.
                Inr (data, max_default (map id' predictions) 0))))"

text \<open>\<^verbatim>\<open>data['predictions'].append(news_entry)\<close>.\<close>

definition append_entry :: "data \<Rightarrow> news_entry \<Rightarrow> py_error + data" where
  "append_entry data news_entry =
     and_then (getitem data ''predictions'') (\<lambda>predictions.
       Inr (AList.update ''predictions'' (predictions @ [news_entry]) data))"

subsection \<open>The pipeline\<close>

text \<open>
  The outside world during one call of \<^verbatim>\<open>process_news\<close>: the date string of
  \<^verbatim>\<open>datetime.now().strftime("%m%d%Y")\<close>, the interpreter's
  \<^verbatim>\<open>str.strip\<close>, \<^verbatim>\<open>os.makedirs\<close> on a path, the state of the YAML file
  at a path, the HTTP responses, the service during the processing of the item that gets
  a given id, and the final \<^verbatim>\<open>yaml.dump\<close> to a path.
\<close>

record env =
  now :: string
  str_strip :: "string \<Rightarrow> string"
  makedirs :: "string \<Rightarrow> py_error option"
  yaml_file :: "string \<Rightarrow> yaml_file"
  requests_get :: http
  service_at :: "int \<Rightarrow> service"
  yaml_dump :: "string \<Rightarrow> py_error option"

definition image_field :: "string \<Rightarrow> string \<Rightarrow> int \<Rightarrow> string" where
  "image_field token current_date current_id =
     ''news/'' @ token @ ''-USDT/'' @ current_date @ ''/'' @ str_int current_id @ ''/chart.png''"

text \<open>A \<^verbatim>\<open>for\<close> loop whose body may raise.\<close>

fun for_each :: "('a \<Rightarrow> 's \<Rightarrow> py_error + 's) \<Rightarrow> 'a list \<Rightarrow> 's \<Rightarrow> py_error + 's" where
  "for_each body [] s = Inr s"
| "for_each body (x # xs) s = and_then (body x s) (for_each body xs)"

text \<open>The body of the loop over the CoinGecko news (lines 181 to 207).\<close>

definition coingecko_item :: "env \<Rightarrow> string \<Rightarrow> news_item \<Rightarrow> data \<times> int \<Rightarrow> py_error + data \<times> int" where
  "coingecko_item w token news state =
     (let (data, previous_id) = state;
          current_date = now w;
          base_dir = ''news/'' @ token @ ''-USDT/'' @ current_date;
          current_id = previous_id + 1;
          img_dir = path_join base_dir (str_int current_id)
      in and_then (effect (makedirs w img_dir)) (\<lambda>_.
         and_then (getitem news ''title'') (\<lambda>news_title.
         and_then (getitem news ''description'') (\<lambda>news_description.
           let (summary, sentiment) =
                 get_sentiment_and_summary (str_strip w) (service_at w current_id) news_title news_description;
               image_path = path_join img_dir ''chart.png'';
               discarded = generate_and_save_image (service_at w current_id) news_title image_path
           in and_then (getitem news ''news_site'') (\<lambda>news_site.
              and_then (getitem news ''url'') (\<lambda>news_url.
                let news_entry =
                      \<lparr>id' = current_id,
                       title = news_site @ '' - '' @ sentiment,
                       preview = summary,
                       fullContent = news_description,
                       image' = image_field token current_date current_id,
                       sourcelink = news_url,
                       sentiment = sentiment\<rparr>
                in and_then (append_entry data news_entry) (\<lambda>data.
                     Inr (data, current_id))))))))"

text \<open>
  The body of the loop over the CryptoPanic news (lines 212 to 238): the title stands
  for the description, and the domain for the news site.
\<close>

definition cryptopanic_item :: "env \<Rightarrow> string \<Rightarrow> news_item \<Rightarrow> data \<times> int \<Rightarrow> py_error + data \<times> int" where
  "cryptopanic_item w token news state =
     (let (data, previous_id) = state;
          current_date = now w;
          base_dir = ''news/'' @ token @ ''-USDT/'' @ current_date;
          current_id = previous_id + 1;
          img_dir = path_join base_dir (str_int current_id)
      in and_then (effect (makedirs w img_dir)) (\<lambda>_.
         and_then (getitem news ''title'') (\<lambda>news_title.
           let (summary, sentiment) =
                 get_sentiment_and_summary (str_strip w) (service_at w current_id) news_title news_title;
               image_path = path_join img_dir ''chart.png'';
               discarded = generate_and_save_image (service_at w current_id) news_title image_path
           in and_then (getitem news ''domain'') (\<lambda>news_domain.
              and_then (getitem news ''url'') (\<lambda>news_url.
                let news_entry =
                      \<lparr>id' = current_id,
                       title = news_domain @ '' - '' @ sentiment,
                       preview = summary,
                       fullContent = news_title,
                       image' = image_field token current_date current_id,
                       sourcelink = news_url,
                       sentiment = sentiment\<rparr>
                in and_then (append_entry data news_entry) (\<lambda>data.
                     Inr (data, current_id)))))))"

text \<open>
  \<^verbatim>\<open>process_news\<close>: its value is the dictionary written to the YAML file, or the
  exception that leaves it.
\<close>

definition process_news :: "env \<Rightarrow> string \<Rightarrow> py_error + data" where
  "process_news w token =
     (let current_date = now w;
          base_dir = ''news/'' @ token @ ''-USDT/'' @ current_date
      in and_then (effect (makedirs w base_dir)) (\<lambda>_.
         let yaml_path = path_join base_dir ''predictions.yaml''
         in and_then (load_existing (yaml_file w yaml_path)) (\<lambda>loaded.
            and_then (get_coingecko_news (requests_get w) token) (\<lambda>coingecko_news.
            and_then (for_each (coingecko_item w token) coingecko_news loaded) (\<lambda>state.
            and_then (get_cryptopanic_news (requests_get w) token) (\<lambda>cryptopanic_news.
            and_then (for_each (cryptopanic_item w token) cryptopanic_news state) (\<lambda>state.
            and_then (effect (yaml_dump w yaml_path)) (\<lambda>_.
              Inr (fst state)))))))))"

subsection \<open>The driver\<close>

text \<open>
  What \<^verbatim>\<open>main\<close> prints for a token: that it was processed, or the exception
  its processing raised.
\<close>

datatype report = Processed string | Failed string py_error

text \<open>
  The loop of \<^verbatim>\<open>main\<close> over the tokens, with its \<^verbatim>\<open>try\<close> around each
  call; \<open>world token\<close> is the outside world while \<open>token\<close> is processed.
\<close>

fun run_tokens :: "(string \<Rightarrow> env) \<Rightarrow> string list \<Rightarrow> report list" where
  "run_tokens world [] = []"
| "run_tokens world (token # tokens) =
     (case process_news (world token) token of
        Inr written \<Rightarrow> Processed token
      | Inl e \<Rightarrow> Failed token e) # run_tokens world tokens"

text \<open>
  \<^verbatim>\<open>main\<close>: the constructor of the processor (it configures the logging, outside
  any \<^verbatim>\<open>try\<close>), then the loop over the configured tokens.
\<close>

definition main :: "py_error option \<Rightarrow> (string \<Rightarrow> env) \<Rightarrow> py_error + report list" where
  "main processor_init world =
     and_then (effect processor_init) (\<lambda>processor. Inr (run_tokens world [''BTC'']))"

subsection \<open>Concrete worlds\<close>

text \<open>A network that is down, and one that answers every request the same way.\<close>

definition offline :: http where
  "offline url params = Inl RequestException"

definition answers :: "int \<Rightarrow> json_body \<Rightarrow> http" where
  "answers status body url params = Inr \<lparr>status_code = status, json = Inr body\<rparr>"

definition btc_item :: news_item where
  "btc_item =
     [(''title'', ''BTC hits new high''),
      (''description'', ''Price surged''),
      (''url'', ''https://example.com/btc''),
      (''news_site'', ''CoinDesk'')]"

definition panic_item :: news_item where
  "panic_item =
     [(''title'', ''ETF inflows rise''),
      (''domain'', ''example.org''),
      (''url'', ''https://example.org/etf''),
      (''kind'', ''news'')]"

definition media_item :: news_item where
  "media_item =
     [(''title'', ''Weekly video''),
      (''domain'', ''example.tv''),
      (''url'', ''https://example.tv/weekly''),
      (''kind'', ''media'')]"

definition untagged_item :: news_item where
  "untagged_item =
     [(''title'', ''Untagged post''),
      (''domain'', ''example.net''),
      (''url'', ''https://example.net/post'')]"

text \<open>
  \<^verbatim>\<open>str.strip\<close> on a string of ASCII characters, for the concrete worlds: the
  characters of the ASCII range for which \<^verbatim>\<open>str.isspace\<close> holds are removed
  at both ends.
\<close>

definition ascii_space :: "char \<Rightarrow> bool" where
  "ascii_space c =
     (c = CHR 0x09 \<or> c = CHR 0x0A \<or> c = CHR 0x0B \<or> c = CHR 0x0C \<or> c = CHR 0x0D \<or>
      c = CHR 0x1C \<or> c = CHR 0x1D \<or> c = CHR 0x1E \<or> c = CHR 0x1F \<or> c = CHR 0x20)"

definition ascii_strip :: "string \<Rightarrow> string" where
  "ascii_strip s = rev (dropWhile ascii_space (rev (dropWhile ascii_space s)))"

text \<open>
  A service that answers (its DALL-E 3 refuses, its DALL-E 2 draws), the same service
  when listing the models fails, and a service that fails at every call.
\<close>

definition helpful :: service where
  "helpful =
     \<lparr>openai_init = None,
      chat_create = (\<lambda>prompt.
        if take 9 prompt = ''Summarize'' then Inr [Some ''BTC price surged to new high'']
        else Inr [Some '' Very Bullish '']),
      models_list = None,
      images_generate = (\<lambda>model prompt.
        if model = ''dall-e-3'' then Inl OpenAIError else Inr [''https://img.example/1.png'']),
      image_get = (\<lambda>url. Inr 200),
      save_image = (\<lambda>path. None)\<rparr>"

definition listing_fails :: service where
  "listing_fails = helpful\<lparr>models_list := Some OpenAIError\<rparr>"

definition failing :: service where
  "failing =
     \<lparr>openai_init = None,
      chat_create = (\<lambda>prompt. Inl OpenAIError),
      models_list = Some OpenAIError,
      images_generate = (\<lambda>model prompt. Inl OpenAIError),
      image_get = (\<lambda>url. Inl RequestException),
      save_image = (\<lambda>path. Some OSError)\<rparr>"

text \<open>
  A first run on a day without a YAML file, with one item from each provider and a
  service that fails at every call; the dictionary it writes; and a second run that
  finds this dictionary in the file.
\<close>

definition first_run :: env where
  "first_run =
     \<lparr>now = ''11042026'',
      str_strip = ascii_strip,
      makedirs = (\<lambda>path. None),
      yaml_file = (\<lambda>path. Missing),
      requests_get = answers 200 [(''data'', [btc_item]), (''results'', [panic_item, media_item])],
      service_at = (\<lambda>current_id. failing),
      yaml_dump = (\<lambda>path. None)\<rparr>"

definition first_written :: data where
  "first_written =
     [(''predictions'',
       [\<lparr>id' = 1,
         title = ''CoinDesk - Neutral'',
         preview = ''Error generating summary'',
         fullContent = ''Price surged'',
         image' = ''news/BTC-USDT/11042026/1/chart.png'',
         sourcelink = ''https://example.com/btc'',
         sentiment = ''Neutral''\<rparr>,
        \<lparr>id' = 2,
         title = ''example.org - Neutral'',
         preview = ''Error generating summary'',
         fullContent = ''ETF inflows rise'',
         image' = ''news/BTC-USDT/11042026/2/chart.png'',
         sourcelink = ''https://example.org/etf'',
         sentiment = ''Neutral''\<rparr>])]"

definition second_run :: env where
  "second_run = first_run\<lparr>yaml_file := (\<lambda>path. Stored (Some first_written))\<rparr>"

definition second_written :: data where
  "second_written =
     [(''predictions'',
       predictions first_written @
       [\<lparr>id' = 3,
         title = ''CoinDesk - Neutral'',
         preview = ''Error generating summary'',
         fullContent = ''Price surged'',
         image' = ''news/BTC-USDT/11042026/3/chart.png'',
         sourcelink = ''https://example.com/btc'',
         sentiment = ''Neutral''\<rparr>,
        \<lparr>id' = 4,
         title = ''example.org - Neutral'',
         preview = ''Error generating summary'',
         fullContent = ''ETF inflows rise'',
         image' = ''news/BTC-USDT/11042026/4/chart.png'',
         sourcelink = ''https://example.org/etf'',
         sentiment = ''Neutral''\<rparr>])]"

text \<open>A world in which the network is down for BTC and up for every other token.\<close>

definition btc_down :: "string \<Rightarrow> env" where
  "btc_down token =
     (if token = ''BTC'' then first_run\<lparr>requests_get := offline\<rparr> else first_run)"

section \<open>Properties\<close>

subsection \<open>Exceptions, dictionaries and loops\<close>

lemma and_then_Inr [simp]: "and_then (Inr v) f = f v"
  by (simp add: and_then_def)

lemma and_then_Inl [simp]: "and_then (Inl e) f = Inl e"
  by (simp add: and_then_def)

lemma effect_simps [simp]: "effect None = Inr ()" "effect (Some e) = Inl e"
  by (simp_all add: effect_def)

lemma and_then_eq_Inr: "and_then r f = Inr y \<longleftrightarrow> (\<exists>v. r = Inr v \<and> f v = Inr y)"
  by (cases r) simp_all

lemma getitem_eq_Inr: "getitem d k = Inr v \<longleftrightarrow> map_of d k = Some v"
  by (simp add: getitem_def split: option.splits)

lemma append_entry_predictions:
  assumes "append_entry data e = Inr data'"
  shows "predictions data' = predictions data @ [e]"
  using assms
  by (auto simp: append_entry_def predictions_def dict_get_def and_then_eq_Inr getitem_eq_Inr
      update_conv')

lemma coingecko_item_appends:
  assumes "coingecko_item w token news (data, cid) = Inr (data', cid')"
  shows "cid' = cid + 1 \<and>
         (\<exists>e. predictions data' = predictions data @ [e] \<and> id' e = cid + 1 \<and>
              image' e = image_field token (now w) (id' e))"
  using assms
  by (auto simp: coingecko_item_def Let_def case_prod_beta and_then_eq_Inr
      dest!: append_entry_predictions)

lemma cryptopanic_item_appends:
  assumes "cryptopanic_item w token news (data, cid) = Inr (data', cid')"
  shows "cid' = cid + 1 \<and>
         (\<exists>e. predictions data' = predictions data @ [e] \<and> id' e = cid + 1 \<and>
              image' e = image_field token (now w) (id' e))"
  using assms
  by (auto simp: cryptopanic_item_def Let_def case_prod_beta and_then_eq_Inr
      dest!: append_entry_predictions)

lemma for_each_appends:
  assumes step: "\<forall>x d c d' c'. body x (d, c) = Inr (d', c') \<longrightarrow>
            c' = c + 1 \<and> (\<exists>e. predictions d' = predictions d @ [e] \<and> id' e = c + 1 \<and> P e)"
    and run: "for_each body xs (d, c) = Inr (d', c')"
  shows "c' = c + int (length xs) \<and>
         (\<exists>new. predictions d' = predictions d @ new \<and> length new = length xs \<and>
            map id' new = [c + 1..c + int (length xs)] \<and> (\<forall>e\<in>set new. P e))"
  using run
proof (induction xs arbitrary: d c)
  case Nil
  then show ?case by simp
next
  case (Cons x xs)
  from Cons.prems obtain d1 c1 where
    first: "body x (d, c) = Inr (d1, c1)" and rest: "for_each body xs (d1, c1) = Inr (d', c')"
    by (auto simp: and_then_eq_Inr)
  from step [rule_format, OF first] obtain e where
    c1: "c1 = c + 1" and e: "predictions d1 = predictions d @ [e]" "id' e = c + 1" "P e"
    by blast
  from Cons.IH [OF rest] obtain new where
    c': "c' = c1 + int (length xs)" and
    new: "predictions d' = predictions d1 @ new" "length new = length xs"
      "map id' new = [c1 + 1..c1 + int (length xs)]" "\<forall>e\<in>set new. P e"
    by blast
  have "c1 + 1 = c + 1 + 1" "c1 + int (length xs) = c + int (length (x # xs))"
    using c1 by simp_all
  moreover have "[c + 1..c + int (length (x # xs))] = (c + 1) # [c + 1 + 1..c + int (length (x # xs))]"
    by (rule upto_rec1) simp
  ultimately have ids:
    "[c + 1..c + int (length (x # xs))] = (c + 1) # [c1 + 1..c1 + int (length xs)]"
    by (simp only:)
  show ?case
  proof (intro conjI exI [of _ "e # new"])
    show "c' = c + int (length (x # xs))" using c' c1 by simp
    show "predictions d' = predictions d @ e # new" using new e by simp
    show "length (e # new) = length (x # xs)" using new by simp
    show "map id' (e # new) = [c + 1..c + int (length (x # xs))]"
      using ids new e by simp
    show "\<forall>e\<in>set (e # new). P e" using new e by simp
  qed
qed

lemma max_default_Max: "max_default xs 0 = (if xs = [] then 0 else Max (set xs))"
  by (cases xs) (simp_all add: max_default_def Max.set_eq_fold [symmetric])

lemma load_existing_id:
  assumes "load_existing file = Inr (data, m)"
  shows "m = (if predictions data = [] then 0 else Max (set (map id' (predictions data))))"
  using assms
  by (auto simp: load_existing_def Let_def and_then_eq_Inr getitem_eq_Inr predictions_def
      dict_get_def max_default_Max split: yaml_file.splits option.splits if_splits)

lemma load_existing_Stored:
  assumes "load_existing (Stored (Some stored)) = Inr (data, m)"
  shows "predictions data = predictions stored"
  using assms
  by (auto simp: load_existing_def Let_def and_then_eq_Inr getitem_eq_Inr predictions_def
      dict_get_def split: if_splits)

lemma upto_append:
  "[m + 1..m + int a] @ [m + int a + 1..m + int a + int b] = [m + 1..m + int a + int b]"
proof (cases "a = 0")
  case True
  then show ?thesis by simp
next
  case False
  then have "m + 1 \<le> m + int a" "m + int a \<le> m + int a + int b"
    by simp_all
  from upto_split2 [OF this] show ?thesis by simp
qed

lemma process_news_appends:
  assumes "process_news w token = Inr written"
  shows "\<exists>data m new.
           load_existing (yaml_file w (path_join (''news/'' @ token @ ''-USDT/'' @ now w) ''predictions.yaml''))
             = Inr (data, m) \<and>
           predictions written = predictions data @ new \<and>
           map id' new = [m + 1..m + int (length new)] \<and>
           (\<forall>e\<in>set new. image' e = image_field token (now w) (id' e))"
proof -
  let ?P = "\<lambda>e. image' e = image_field token (now w) (id' e)"
  from assms obtain data m news1 d1 c1 news2 d2 c2 where
    load: "load_existing (yaml_file w (path_join (''news/'' @ token @ ''-USDT/'' @ now w) ''predictions.yaml''))
             = Inr (data, m)" and
    loop1: "for_each (coingecko_item w token) news1 (data, m) = Inr (d1, c1)" and
    loop2: "for_each (cryptopanic_item w token) news2 (d1, c1) = Inr (d2, c2)" and
    written: "written = d2"
    by (auto simp: process_news_def Let_def and_then_eq_Inr)
  have step1: "\<forall>x d c d' c'. coingecko_item w token x (d, c) = Inr (d', c') \<longrightarrow>
      c' = c + 1 \<and> (\<exists>e. predictions d' = predictions d @ [e] \<and> id' e = c + 1 \<and> ?P e)"
    by (intro allI impI) (rule coingecko_item_appends)
  have step2: "\<forall>x d c d' c'. cryptopanic_item w token x (d, c) = Inr (d', c') \<longrightarrow>
      c' = c + 1 \<and> (\<exists>e. predictions d' = predictions d @ [e] \<and> id' e = c + 1 \<and> ?P e)"
    by (intro allI impI) (rule cryptopanic_item_appends)
  from for_each_appends [where P = ?P, OF step1 loop1] obtain new1 where
    c1: "c1 = m + int (length news1)" and
    new1: "predictions d1 = predictions data @ new1" "length new1 = length news1"
      "map id' new1 = [m + 1..m + int (length news1)]" "\<forall>e\<in>set new1. ?P e"
    by blast
  from for_each_appends [where P = ?P, OF step2 loop2] obtain new2 where
    new2: "predictions d2 = predictions d1 @ new2" "length new2 = length news2"
      "map id' new2 = [c1 + 1..c1 + int (length news2)]" "\<forall>e\<in>set new2. ?P e"
    by blast
  have "map id' (new1 @ new2) = [m + 1..m + int (length (new1 @ new2))]"
    using new1 new2 c1 upto_append [of m "length news1" "length news2"]
    by (simp add: add.assoc)
  with load new1 new2 written show ?thesis
    by (intro exI [of _ data] exI [of _ m] exI [of _ "new1 @ new2"]) auto
qed

subsection \<open>The fetchers\<close>

lemma kind_is_news_filter:
  assumes "\<forall>news\<in>set results. map_of news ''kind'' \<noteq> None"
  shows "kind_is_news results = Inr (filter (\<lambda>news. map_of news ''kind'' = Some ''news'') results)"
  using assms by (induction results) (auto simp: getitem_def)

lemma kind_is_news_KeyError:
  assumes "\<exists>news\<in>set results. map_of news ''kind'' = None"
  shows "kind_is_news results = Inl (KeyError ''kind'')"
  using assms
proof (induction results)
  case Nil
  then show ?case by simp
next
  case (Cons news rest)
  show ?case
  proof (cases "map_of news ''kind''")
    case None
    then show ?thesis by (simp add: getitem_def)
  next
    case (Some kind)
    with Cons.prems have "\<exists>news\<in>set rest. map_of news ''kind'' = None" by auto
    with Cons.IH Some show ?thesis by (simp add: getitem_def)
  qed
qed

text \<open>
  Claim C10. \<^verbatim>\<open>get_coingecko_news\<close> returns at most 10 items: whatever it
  returns has at most 10 entries, and on a response with status 200 it returns the first
  10 entries of the array under \<^verbatim>\<open>data\<close> (all of them when there are fewer, none
  when the key is absent).
\<close>

theorem get_coingecko_news_first_ten:
  "(\<forall>items. get_coingecko_news network token = Inr items \<longrightarrow> length items \<le> 10) \<and>
   (\<forall>response body.
      network (coingecko_base_url @ ''/news'') [(''filter'', token)] = Inr response \<and>
      status_code response = 200 \<and> json response = Inr body \<longrightarrow>
      get_coingecko_news network token =
        Inr (take 10 (case map_of body ''data'' of None \<Rightarrow> [] | Some items \<Rightarrow> items)))"
  by (auto simp: get_coingecko_news_def Let_def and_then_eq_Inr dict_get_def split: if_splits)

text \<open>Twelve items from the provider: the first ten are returned.\<close>

theorem get_coingecko_news_first_ten_witness:
  "get_coingecko_news (answers 200 [(''data'', replicate 12 btc_item)]) ''BTC'' =
     Inr (replicate 10 btc_item) \<and>
   length (replicate 10 btc_item) \<le> 10"
  using get_coingecko_news_first_ten [of "answers 200 [(''data'', replicate 12 btc_item)]" "''BTC''"]
  by (simp add: answers_def)

text \<open>
  Claim C2, amended. On a response whose status code is not 200, each of
  \<^verbatim>\<open>get_coingecko_news\<close> and \<^verbatim>\<open>get_cryptopanic_news\<close> returns the empty
  list. A transport failure, that is an exception of \<^verbatim>\<open>requests.get\<close>, is not
  caught by either of them: it reaches the caller.
\<close>

theorem fetchers_non_success:
  "(\<forall>response.
      network (coingecko_base_url @ ''/news'') [(''filter'', token)] = Inr response \<and>
      status_code response \<noteq> 200 \<longrightarrow>
      get_coingecko_news network token = Inr []) \<and>
   (\<forall>response.
      network cryptopanic_base_url
        [(''auth_token'', cryptopanic_api_key), (''currencies'', token), (''kind'', ''news'')] = Inr response \<and>
      status_code response \<noteq> 200 \<longrightarrow>
      get_cryptopanic_news network token = Inr []) \<and>
   (\<forall>e.
      network (coingecko_base_url @ ''/news'') [(''filter'', token)] = Inl e \<longrightarrow>
      get_coingecko_news network token = Inl e) \<and>
   (\<forall>e.
      network cryptopanic_base_url
        [(''auth_token'', cryptopanic_api_key), (''currencies'', token), (''kind'', ''news'')] = Inl e \<longrightarrow>
      get_cryptopanic_news network token = Inl e)"
  by (simp add: get_coingecko_news_def get_cryptopanic_news_def Let_def)

text \<open>A provider that answers 503, and a network that is down.\<close>

theorem fetchers_non_success_witness:
  "get_coingecko_news (answers 503 []) ''BTC'' = Inr [] \<and>
   get_cryptopanic_news (answers 503 []) ''BTC'' = Inr [] \<and>
   get_coingecko_news offline ''BTC'' = Inl RequestException \<and>
   get_cryptopanic_news offline ''BTC'' = Inl RequestException"
  using fetchers_non_success [of "answers 503 []" "''BTC''"]
    fetchers_non_success [of offline "''BTC''"]
  by (simp add: answers_def offline_def)

text \<open>
  Claim C2 as stated fails: with the network down, neither fetcher returns the empty
  list; both raise the exception of \<^verbatim>\<open>requests.get\<close>.
\<close>

theorem fetchers_transport_failure_counterexample:
  "get_coingecko_news offline ''BTC'' \<noteq> Inr [] \<and>
   get_coingecko_news offline ''BTC'' = Inl RequestException \<and>
   get_cryptopanic_news offline ''BTC'' \<noteq> Inr [] \<and>
   get_cryptopanic_news offline ''BTC'' = Inl RequestException"
  by (simp add: get_coingecko_news_def get_cryptopanic_news_def offline_def)

text \<open>
  Claim C7, amended. On a response with status 200 and a JSON body,
  \<^verbatim>\<open>get_cryptopanic_news\<close> returns exactly the entries of \<^verbatim>\<open>results\<close> whose
  \<^verbatim>\<open>kind\<close> is \<^verbatim>\<open>"news"\<close>, in their order, provided every entry has the key
  \<^verbatim>\<open>kind\<close>; when an entry has no such key it raises \<^verbatim>\<open>KeyError('kind')\<close>.
\<close>

theorem get_cryptopanic_news_kind:
  assumes "network cryptopanic_base_url
             [(''auth_token'', cryptopanic_api_key), (''currencies'', token), (''kind'', ''news'')] = Inr response"
    and "status_code response = 200"
    and "json response = Inr body"
  shows "((\<forall>news\<in>set (dict_get body ''results'' []). map_of news ''kind'' \<noteq> None) \<longrightarrow>
           get_cryptopanic_news network token =
             Inr (filter (\<lambda>news. map_of news ''kind'' = Some ''news'') (dict_get body ''results'' []))) \<and>
         ((\<exists>news\<in>set (dict_get body ''results'' []). map_of news ''kind'' = None) \<longrightarrow>
           get_cryptopanic_news network token = Inl (KeyError ''kind''))"
  using assms
  by (simp add: get_cryptopanic_news_def Let_def kind_is_news_filter kind_is_news_KeyError)

text \<open>A news entry with a media entry, and a news entry with an entry without kind.\<close>

theorem get_cryptopanic_news_kind_witness:
  "get_cryptopanic_news (answers 200 [(''results'', [panic_item, media_item])]) ''BTC'' = Inr [panic_item] \<and>
   get_cryptopanic_news (answers 200 [(''results'', [panic_item, untagged_item])]) ''BTC'' = Inl (KeyError ''kind'')"
  using get_cryptopanic_news_kind [of "answers 200 [(''results'', [panic_item, media_item])]" "''BTC''"
      "\<lparr>status_code = 200, json = Inr [(''results'', [panic_item, media_item])]\<rparr>"
      "[(''results'', [panic_item, media_item])]"]
    get_cryptopanic_news_kind [of "answers 200 [(''results'', [panic_item, untagged_item])]" "''BTC''"
      "\<lparr>status_code = 200, json = Inr [(''results'', [panic_item, untagged_item])]\<rparr>"
      "[(''results'', [panic_item, untagged_item])]"]
  by (simp add: answers_def dict_get_def panic_item_def media_item_def untagged_item_def)

text \<open>
  Claim C7 as stated fails: on a successful response with a news entry and an entry
  without \<^verbatim>\<open>kind\<close>, no list is returned (neither the news entry alone, nor both
  entries); the lookup raises.
\<close>

theorem get_cryptopanic_news_absent_kind_counterexample:
  "get_cryptopanic_news (answers 200 [(''results'', [panic_item, untagged_item])]) ''BTC'' =
     Inl (KeyError ''kind'') \<and>
   get_cryptopanic_news (answers 200 [(''results'', [panic_item, untagged_item])]) ''BTC'' \<noteq>
     Inr [panic_item] \<and>
   get_cryptopanic_news (answers 200 [(''results'', [panic_item, untagged_item])]) ''BTC'' \<noteq>
     Inr [panic_item, untagged_item]"
  by (simp add: get_cryptopanic_news_def answers_def dict_get_def getitem_def
      panic_item_def untagged_item_def)

subsection \<open>The record store\<close>

text \<open>
  Claim C6, amended. Loading returns the empty collection (no predictions, last id 0)
  when there is no file, and when the file loads as \<^verbatim>\<open>None\<close> (an empty file) or
  as an empty dictionary. When the file exists and cannot be read (\<^verbatim>\<open>open\<close> or
  \<^verbatim>\<open>yaml.safe_load\<close> raises), the exception is raised, and it leaves
  \<^verbatim>\<open>process_news\<close>.
\<close>

theorem load_existing_empty:
  "load_existing Missing = Inr ([(''predictions'', [])], 0) \<and>
   load_existing (Stored None) = Inr ([(''predictions'', [])], 0) \<and>
   load_existing (Stored (Some [])) = Inr ([(''predictions'', [])], 0) \<and>
   (\<forall>e. load_existing (Unreadable e) = Inl e) \<and>
   (\<forall>w token e.
      makedirs w (''news/'' @ token @ ''-USDT/'' @ now w) = None \<and>
      yaml_file w (path_join (''news/'' @ token @ ''-USDT/'' @ now w) ''predictions.yaml'') = Unreadable e \<longrightarrow>
      process_news w token = Inl e)"
  by (simp add: load_existing_def getitem_def max_default_def process_news_def Let_def)

text \<open>A run that finds a file that is not YAML.\<close>

theorem load_existing_empty_witness:
  "process_news (first_run\<lparr>yaml_file := (\<lambda>path. Unreadable YAMLError)\<rparr>) ''BTC'' = Inl YAMLError \<and>
   load_existing (Stored None) = Inr ([(''predictions'', [])], 0)"
  using load_existing_empty
  by (simp add: first_run_def)

text \<open>
  Claim C6 as stated fails: for a file that cannot be opened, loading raises instead of
  returning the empty collection.
\<close>

theorem load_existing_unreadable_counterexample:
  "load_existing (Unreadable OSError) = Inl OSError \<and>
   load_existing (Unreadable OSError) \<noteq> Inr ([(''predictions'', [])], 0)"
  by (simp add: load_existing_def)

subsection \<open>Evaluating the concrete worlds\<close>

lemma str_int_small: "str_int 1 = ''1''" "str_int 2 = ''2''" "str_int 3 = ''3''" "str_int 4 = ''4''"
  by (simp_all add: str_int_def str_nat.simps)

lemmas run_defs =
  process_news_def first_run_def answers_def offline_def
  get_coingecko_news_def get_cryptopanic_news_def load_existing_def max_default_def
  dict_get_def getitem_def btc_item_def panic_item_def media_item_def
  coingecko_item_def cryptopanic_item_def path_join_def str_int_small
  get_sentiment_and_summary_def sentiment_and_summary_try_def failing_def
  append_entry_def image_field_def coingecko_base_url_def cryptopanic_base_url_def

lemma first_run_written: "process_news first_run ''BTC'' = Inr first_written"
  by (simp add: run_defs first_written_def)

lemma second_run_written: "process_news second_run ''BTC'' = Inr second_written"
  by (simp add: second_run_def run_defs first_written_def second_written_def predictions_def)

lemma ascii_strip_examples:
  "ascii_strip '' Very Bullish '' = ''Very Bullish''"
  "ascii_strip ''BTC price surged to new high'' = ''BTC price surged to new high''"
  by (simp_all add: ascii_strip_def ascii_space_def)

subsection \<open>The enricher\<close>

text \<open>
  Claim C3. When a step of \<^verbatim>\<open>get_sentiment_and_summary\<close> fails, it returns the
  pair \<^verbatim>\<open>("Error generating summary", "Neutral")\<close>. The steps are the construction
  of the client, the two chat requests (a timeout or a transport failure is an exception
  of the request), and the reading of the first choice of each response (a response
  without choices, or whose content is \<^verbatim>\<open>None\<close>, is malformed). The function
  returns a pair in every case: no exception leaves it.
\<close>

theorem get_sentiment_and_summary_fallback:
  assumes "openai_init svc = Some e \<or>
           chat_create svc (summary_prompt news_title) = Inl e \<or>
           (\<exists>choices. chat_create svc (summary_prompt news_title) = Inr choices \<and>
              first_content choices = Inl e) \<or>
           chat_create svc (sentiment_prompt news_title news_description) = Inl e \<or>
           (\<exists>choices. chat_create svc (sentiment_prompt news_title news_description) = Inr choices \<and>
              first_content choices = Inl e)"
  shows "get_sentiment_and_summary strip svc news_title news_description =
           (''Error generating summary'', ''Neutral'')"
proof -
  have "\<exists>e'. sentiment_and_summary_try strip svc news_title news_description = Inl e'"
    using assms
    by (auto simp: sentiment_and_summary_try_def and_then_def Let_def split: sum.splits)
  then show ?thesis
    by (auto simp: get_sentiment_and_summary_def)
qed

text \<open>A service whose chat requests fail.\<close>

theorem get_sentiment_and_summary_fallback_witness:
  "chat_create failing (summary_prompt ''BTC hits new high'') = Inl OpenAIError \<and>
   get_sentiment_and_summary ascii_strip failing ''BTC hits new high'' ''Price surged'' =
     (''Error generating summary'', ''Neutral'')"
  using get_sentiment_and_summary_fallback [of failing OpenAIError "''BTC hits new high''" "''Price surged''"
      ascii_strip]
  by (simp add: failing_def)

text \<open>
  Claim C4. When both requests succeed, the raw label is the content of the sentiment
  response after \<^verbatim>\<open>str.strip\<close>, whatever characters the interpreter's
  \<^verbatim>\<open>strip\<close> removes. The sentiment returned is \<^verbatim>\<open>"VeryBullish"\<close> for the
  raw label \<^verbatim>\<open>"Very Bullish"\<close> and \<^verbatim>\<open>"VeryBearish"\<close> for
  \<^verbatim>\<open>"Very Bearish"\<close>; every other raw label, one of the five or not, is returned
  as it is.
\<close>

theorem sentiment_canonicalization:
  assumes "openai_init svc = None"
    and "chat_create svc (summary_prompt news_title) = Inr (Some summary # more_summaries)"
    and "chat_create svc (sentiment_prompt news_title news_description) = Inr (Some label # more_labels)"
  shows "get_sentiment_and_summary strip svc news_title news_description =
           (strip summary,
            if strip label = ''Very Bullish'' then ''VeryBullish''
            else if strip label = ''Very Bearish'' then ''VeryBearish''
            else strip label)"
  using assms
  by (simp add: get_sentiment_and_summary_def sentiment_and_summary_try_def first_content_def
      dict_get_def sentiment_mapping_def Let_def)

text \<open>
  A service that answers \<^verbatim>\<open>" Very Bullish "\<close>, with the strip of ASCII strings;
  and the same answer with a strip that removes nothing, so that the raw label is not
  one of the two and is returned as it is.
\<close>

theorem sentiment_canonicalization_witness:
  "get_sentiment_and_summary ascii_strip helpful ''BTC hits new high'' ''Price surged'' =
     (''BTC price surged to new high'', ''VeryBullish'') \<and>
   get_sentiment_and_summary id helpful ''BTC hits new high'' ''Price surged'' =
     (''BTC price surged to new high'', '' Very Bullish '')"
  using sentiment_canonicalization [of helpful "''BTC hits new high''" "''BTC price surged to new high''" "[]"
      "''Price surged''" "'' Very Bullish ''" "[]" ascii_strip]
    sentiment_canonicalization [of helpful "''BTC hits new high''" "''BTC price surged to new high''" "[]"
      "''Price surged''" "'' Very Bullish ''" "[]" id]
  by (simp add: helpful_def summary_prompt_def sentiment_prompt_def ascii_strip_examples)

subsection \<open>The illustrator\<close>

lemma download_and_save_result:
  "(case download_and_save svc response save_path of Inr path \<Rightarrow> path | Inl e \<Rightarrow> '''') =
     (if \<exists>url more_urls. response = url # more_urls \<and> image_get svc url = Inr 200 \<and>
           save_image svc save_path = None
      then save_path else '''')"
proof (cases response)
  case Nil
  then show ?thesis by (simp add: download_and_save_def)
next
  case (Cons url more_urls)
  show ?thesis
  proof (cases "image_get svc url")
    case (Inl e)
    with Cons show ?thesis by (simp add: download_and_save_def)
  next
    case (Inr img_status)
    with Cons show ?thesis
      by (cases "save_image svc save_path") (simp_all add: download_and_save_def)
  qed
qed

lemma generate_and_save_image_log_unavailable:
  assumes "openai_init svc \<noteq> None \<or> models_list svc \<noteq> None"
  shows "generate_and_save_image_log svc prompt save_path = ('''', [])"
  using assms
  by (cases "openai_init svc"; cases "models_list svc")
    (simp_all add: generate_and_save_image_log_def generate_and_save_image_try_def)

lemma generate_and_save_image_log_primary:
  assumes "openai_init svc = None" "models_list svc = None"
    and "images_generate svc ''dall-e-3'' (image_prompt prompt) = Inr response"
  shows "generate_and_save_image_log svc prompt save_path =
           (case download_and_save svc response save_path of Inr path \<Rightarrow> path | Inl e \<Rightarrow> '''',
            [''dall-e-3''])"
  using assms
  by (simp add: generate_and_save_image_log_def generate_and_save_image_try_def generate_image_def)

lemma generate_and_save_image_log_secondary:
  assumes "openai_init svc = None" "models_list svc = None"
    and "images_generate svc ''dall-e-3'' (image_prompt prompt) = Inl e"
  shows "generate_and_save_image_log svc prompt save_path =
           (case images_generate svc ''dall-e-2'' (image_prompt prompt) of
              Inr response \<Rightarrow>
                (case download_and_save svc response save_path of Inr path \<Rightarrow> path | Inl e \<Rightarrow> '''')
            | Inl e \<Rightarrow> '''',
            [''dall-e-3'', ''dall-e-2''])"
  using assms
  by (cases "images_generate svc ''dall-e-2'' (image_prompt prompt)")
    (simp_all add: generate_and_save_image_log_def generate_and_save_image_try_def generate_image_def)

text \<open>
  Claim C5, amended. \<^verbatim>\<open>generate_and_save_image\<close> first constructs the client and
  lists the models; when one of the two fails it sends no image request at all. Otherwise
  its first request is to \<^verbatim>\<open>dall-e-3\<close>, and it sends one more request, to
  \<^verbatim>\<open>dall-e-2\<close>, exactly when the first one fails. It returns \<open>save_path\<close> when
  the model that answered gave a url, the download has status 200 and the file is
  written; in every other case it returns the empty string. No exception leaves it.
\<close>

theorem generate_and_save_image_fallback:
  "snd (generate_and_save_image_log svc prompt save_path) =
     (if openai_init svc \<noteq> None \<or> models_list svc \<noteq> None then []
      else if (\<exists>response. images_generate svc ''dall-e-3'' (image_prompt prompt) = Inr response)
      then [''dall-e-3'']
      else [''dall-e-3'', ''dall-e-2'']) \<and>
   generate_and_save_image svc prompt save_path =
     (if openai_init svc = None \<and> models_list svc = None \<and>
         (\<exists>url more_urls.
            (case images_generate svc ''dall-e-3'' (image_prompt prompt) of
               Inr response \<Rightarrow> Inr response
             | Inl e \<Rightarrow> images_generate svc ''dall-e-2'' (image_prompt prompt)) = Inr (url # more_urls) \<and>
            image_get svc url = Inr 200 \<and> save_image svc save_path = None)
      then save_path else '''')"
proof (cases "openai_init svc \<noteq> None \<or> models_list svc \<noteq> None")
  case True
  from generate_and_save_image_log_unavailable [OF this] True show ?thesis
    by (auto simp: generate_and_save_image_def)
next
  case False
  then have up: "openai_init svc = None" "models_list svc = None"
    by simp_all
  show ?thesis
  proof (cases "images_generate svc ''dall-e-3'' (image_prompt prompt)")
    case (Inr response)
    from generate_and_save_image_log_primary [OF up Inr] up Inr show ?thesis
      by (simp add: generate_and_save_image_def download_and_save_result)
  next
    case primary: (Inl e)
    show ?thesis
    proof (cases "images_generate svc ''dall-e-2'' (image_prompt prompt)")
      case (Inl e2)
      with generate_and_save_image_log_secondary [OF up primary] up primary show ?thesis
        by (simp add: generate_and_save_image_def)
    next
      case (Inr response)
      with generate_and_save_image_log_secondary [OF up primary] up primary show ?thesis
        by (simp add: generate_and_save_image_def download_and_save_result)
    qed
  qed
qed

text \<open>
  A service whose DALL-E 3 refuses and whose DALL-E 2 draws: two requests, and the image
  is saved. A service that fails at every call: the empty string.
\<close>

theorem generate_and_save_image_fallback_witness:
  "generate_and_save_image_log helpful ''BTC hits new high'' ''news/BTC-USDT/11042026/1/chart.png'' =
     (''news/BTC-USDT/11042026/1/chart.png'', [''dall-e-3'', ''dall-e-2'']) \<and>
   generate_and_save_image failing ''BTC hits new high'' ''news/BTC-USDT/11042026/1/chart.png'' = ''''"
  using generate_and_save_image_fallback [of helpful "''BTC hits new high''" "''news/BTC-USDT/11042026/1/chart.png''"]
    generate_and_save_image_fallback [of failing "''BTC hits new high''" "''news/BTC-USDT/11042026/1/chart.png''"]
  by (simp add: helpful_def failing_def generate_and_save_image_def prod_eq_iff)

text \<open>
  Claim C5 as stated fails: when listing the models fails, the function returns the
  empty string without having requested an image from \<^verbatim>\<open>dall-e-3\<close> (or from
  \<^verbatim>\<open>dall-e-2\<close>), although \<^verbatim>\<open>dall-e-2\<close> would have drawn one.
\<close>

theorem generate_and_save_image_listing_counterexample:
  "snd (generate_and_save_image_log listing_fails ''BTC hits new high'' ''news/BTC-USDT/11042026/1/chart.png'') = [] \<and>
   generate_and_save_image listing_fails ''BTC hits new high'' ''news/BTC-USDT/11042026/1/chart.png'' = '''' \<and>
   images_generate listing_fails ''dall-e-2'' (image_prompt ''BTC hits new high'') =
     Inr [''https://img.example/1.png'']"
  by (simp add: generate_and_save_image_def generate_and_save_image_log_def
      generate_and_save_image_try_def listing_fails_def helpful_def)

subsection \<open>The pipeline\<close>

lemma ids_continue:
  fixes old :: "int list"
  assumes "m = (if old = [] then 0 else Max (set old))" and "sorted_wrt (<) old"
  shows "sorted_wrt (<) (old @ [m + 1..m + k]) \<and> distinct (old @ [m + 1..m + k])"
proof -
  have below: "x < y" if "x \<in> set old" "y \<in> set [m + 1..m + k]" for x y
  proof -
    from that(1) assms(1) have "x \<le> m"
      by (auto split: if_splits)
    with that(2) show ?thesis by simp
  qed
  with assms(2) have "sorted_wrt (<) (old @ [m + 1..m + k])"
    by (simp add: sorted_wrt_append)
  then show ?thesis
    by (simp add: strict_sorted_iff)
qed

text \<open>
  Claim C1. A call of \<^verbatim>\<open>process_news\<close> that writes the file loads the collection
  of the day (the file's, when there is one), takes \<open>m\<close>, the greatest id in it or 0
  when it is empty, and appends new entries whose ids are \<open>m + 1\<close>, \<open>m + 2\<close>, ... in
  this order. So the first new id is the greatest existing id plus 1, or 1 for an empty
  collection; a second run on the file of a first one goes on from the greatest id of
  the file; and when the ids of the loaded collection are strictly increasing, so are
  the ids of the collection written, which are then distinct.
\<close>

theorem process_news_ids:
  assumes "process_news w token = Inr written"
  shows "\<exists>data m new.
           load_existing (yaml_file w (path_join (''news/'' @ token @ ''-USDT/'' @ now w) ''predictions.yaml''))
             = Inr (data, m) \<and>
           (\<forall>stored.
              yaml_file w (path_join (''news/'' @ token @ ''-USDT/'' @ now w) ''predictions.yaml'')
                = Stored (Some stored) \<longrightarrow>
              predictions data = predictions stored) \<and>
           m = (if predictions data = [] then 0 else Max (set (map id' (predictions data)))) \<and>
           predictions written = predictions data @ new \<and>
           map id' new = [m + 1..m + int (length new)] \<and>
           (sorted_wrt (<) (map id' (predictions data)) \<longrightarrow>
              sorted_wrt (<) (map id' (predictions written)) \<and>
              distinct (map id' (predictions written)))"
proof -
  let ?file = "yaml_file w (path_join (''news/'' @ token @ ''-USDT/'' @ now w) ''predictions.yaml'')"
  from process_news_appends [OF assms] obtain data m new where
    load: "load_existing ?file = Inr (data, m)" and
    written: "predictions written = predictions data @ new" and
    ids: "map id' new = [m + 1..m + int (length new)]"
    by blast
  have m: "m = (if predictions data = [] then 0 else Max (set (map id' (predictions data))))"
    using load by (rule load_existing_id)
  have stored: "\<forall>stored. ?file = Stored (Some stored) \<longrightarrow> predictions data = predictions stored"
    using load by (auto dest: load_existing_Stored)
  have "sorted_wrt (<) (map id' (predictions written)) \<and> distinct (map id' (predictions written))"
    if "sorted_wrt (<) (map id' (predictions data))"
    using ids_continue [of m "map id' (predictions data)" "int (length new)"] m that written ids
    by simp
  with load stored m written ids show ?thesis
    by blast
qed

text \<open>
  A first run without a file writes the ids 1 and 2; a second run on the file of the
  first one appends the ids 3 and 4.
\<close>

theorem process_news_ids_witness:
  "process_news first_run ''BTC'' = Inr first_written \<and>
   map id' (predictions first_written) = [1, 2] \<and>
   yaml_file second_run ''news/BTC-USDT/11042026/predictions.yaml'' = Stored (Some first_written) \<and>
   process_news second_run ''BTC'' = Inr second_written \<and>
   map id' (predictions second_written) = [1, 2, 3, 4]"
  using process_news_ids [OF second_run_written] first_run_written second_run_written
  by (simp add: first_written_def second_written_def predictions_def dict_get_def
      second_run_def first_run_def)

lemma get_sentiment_and_summary_illustrator:
  "get_sentiment_and_summary strip
     (svc\<lparr>models_list := listing, images_generate := generating, image_get := getting,
          save_image := saving\<rparr>) news_title news_description =
   get_sentiment_and_summary strip svc news_title news_description"
  by (simp add: get_sentiment_and_summary_def sentiment_and_summary_try_def)

text \<open>
  Claim C9. Every entry that a call of \<^verbatim>\<open>process_news\<close> appends has, as its image
  field, the string \<^verbatim>\<open>news/<token>-USDT/<date>/<id>/chart.png\<close> of its own id,
  whatever \<^verbatim>\<open>generate_and_save_image\<close> returned: its result is discarded, and what
  \<^verbatim>\<open>process_news\<close> writes or raises is the same for any other behaviour of the
  model listing, of the image requests, of the download and of the saving of the image.
\<close>

theorem process_news_image_field:
  "(\<forall>written. process_news w token = Inr written \<longrightarrow>
      (\<exists>data m new.
         load_existing (yaml_file w (path_join (''news/'' @ token @ ''-USDT/'' @ now w) ''predictions.yaml''))
           = Inr (data, m) \<and>
         predictions written = predictions data @ new \<and>
         (\<forall>e\<in>set new.
            image' e = ''news/'' @ token @ ''-USDT/'' @ now w @ ''/'' @ str_int (id' e) @ ''/chart.png''))) \<and>
   process_news
     (w\<lparr>service_at := \<lambda>current_id. (service_at w current_id)
           \<lparr>models_list := listing current_id, images_generate := generating current_id,
            image_get := getting current_id, save_image := saving current_id\<rparr>\<rparr>) token =
   process_news w token"
proof
  show "\<forall>written. process_news w token = Inr written \<longrightarrow>
      (\<exists>data m new.
         load_existing (yaml_file w (path_join (''news/'' @ token @ ''-USDT/'' @ now w) ''predictions.yaml''))
           = Inr (data, m) \<and>
         predictions written = predictions data @ new \<and>
         (\<forall>e\<in>set new.
            image' e = ''news/'' @ token @ ''-USDT/'' @ now w @ ''/'' @ str_int (id' e) @ ''/chart.png''))"
    using process_news_appends [of w token]
    unfolding image_field_def by blast
next
  let ?w = "w\<lparr>service_at := \<lambda>current_id. (service_at w current_id)
           \<lparr>models_list := listing current_id, images_generate := generating current_id,
            image_get := getting current_id, save_image := saving current_id\<rparr>\<rparr>"
  have "coingecko_item ?w token = coingecko_item w token"
    by (intro ext)
      (simp add: coingecko_item_def Let_def case_prod_beta get_sentiment_and_summary_illustrator)
  moreover have "cryptopanic_item ?w token = cryptopanic_item w token"
    by (intro ext)
      (simp add: cryptopanic_item_def Let_def case_prod_beta get_sentiment_and_summary_illustrator)
  ultimately show "process_news ?w token = process_news w token"
    by (simp add: process_news_def)
qed

text \<open>
  The first run, whose service fails at every call: no image is saved, and the entries
  written point at the paths of the images all the same.
\<close>

theorem process_news_image_field_witness:
  "process_news first_run ''BTC'' = Inr first_written \<and>
   generate_and_save_image (service_at first_run 1) ''BTC hits new high''
     ''news/BTC-USDT/11042026/1/chart.png'' = '''' \<and>
   map image' (predictions first_written) =
     [''news/BTC-USDT/11042026/1/chart.png'', ''news/BTC-USDT/11042026/2/chart.png'']"
  using process_news_image_field [of first_run "''BTC''"] first_run_written
  by (simp add: first_written_def predictions_def dict_get_def first_run_def failing_def
      generate_and_save_image_def generate_and_save_image_log_def generate_and_save_image_try_def)

subsection \<open>The driver\<close>

text \<open>
  Claim C8. The loop of \<^verbatim>\<open>main\<close> reports on every token, in order: a token whose
  processing raises is reported as failed with its exception, and the tokens after it
  are processed as if it had not been there.
\<close>

theorem run_tokens_isolates_failures:
  "run_tokens world tokens =
     map (\<lambda>token. case process_news (world token) token of
                     Inr written \<Rightarrow> Processed token
                   | Inl e \<Rightarrow> Failed token e) tokens \<and>
   (\<forall>before token after e.
      process_news (world token) token = Inl e \<longrightarrow>
      run_tokens world (before @ token # after) =
        run_tokens world before @ Failed token e # run_tokens world after) \<and>
   main None world = Inr (run_tokens world [''BTC''])"
proof -
  have all: "run_tokens world ts =
     map (\<lambda>token. case process_news (world token) token of
                     Inr written \<Rightarrow> Processed token
                   | Inl e \<Rightarrow> Failed token e) ts" for ts
    by (induction ts) simp_all
  then show ?thesis
    by (simp add: main_def)
qed

text \<open>The network is down for BTC: BTC is reported as failed, and ETH is processed.\<close>

theorem run_tokens_isolates_failures_witness:
  "process_news (btc_down ''BTC'') ''BTC'' = Inl RequestException \<and>
   run_tokens btc_down [''BTC'', ''ETH''] = [Failed ''BTC'' RequestException, Processed ''ETH'']"
proof -
  have down: "process_news (btc_down ''BTC'') ''BTC'' = Inl RequestException"
    by (simp add: btc_down_def run_defs)
  have up: "\<exists>written. process_news (btc_down ''ETH'') ''ETH'' = Inr written"
    by (simp add: btc_down_def run_defs)
  from run_tokens_isolates_failures [of btc_down "[''BTC'', ''ETH'']"] down up show ?thesis
    by auto
qed

end
